theory Spec2Isabelle
  imports Complex_Main "HOL-Library.AList" "HOL-Library.Sublist"
begin

section \<open>Data model of rosetta-stone-ez.py\<close>

text \<open>
  The script works on the dictionaries that the platform's JSON replies are parsed into.
  Each dictionary whose keys the script reads is a record with one field per key read; a
  key whose presence the script tests (\<^verbatim>\<open>"additionalContent" in ...\<close>,
  \<^verbatim>\<open>"carousel" in ...\<close>, \<^verbatim>\<open>'errors' in response\<close>) is an optional field.
  Python floats are idealised as real numbers: rounding, infinities and NaN are not
  modelled. Every request is answered, and every reply to a submission parses as a JSON
  dictionary: exceptions of the transport and of the JSON parser are not modelled. Console
  output and \<^verbatim>\<open>time.sleep\<close> are left out.
\<close>

text \<open>What can stop a call: the exceptions the script can raise, and \<^verbatim>\<open>exit(n)\<close>.\<close>

datatype py_error = SystemExit int | ZeroDivisionError | IndexError | TypeError

text \<open>A flashcard of a carousel; only its \<^verbatim>\<open>'id'\<close> is read.\<close>

record card =
  card_id :: string

text \<open>An element of \<^verbatim>\<open>step["content"]\<close>.\<close>

record content =
  additionalContent :: "string option"
  carousel :: "card list list option"

record step =
  step_type :: string
  step_content :: "content list"
  step_correct :: "string list"
  activityStepId :: string

text \<open>An element of the \<^verbatim>\<open>"answers"\<close> list: \<^verbatim>\<open>{"answer": ..., "correct": ...}\<close>.\<close>

record formatted_answer =
  answer :: string
  correct :: bool

text \<open>The dictionary \<^verbatim>\<open>format_answers\<close> returns.\<close>

record plan =
  fragmented :: bool
  answers :: "formatted_answer list"
  title :: string

section \<open>format_answers\<close>

definition correct_answers :: "step \<Rightarrow> formatted_answer list" where
  "correct_answers st = map (\<lambda>a. \<lparr>answer = a, correct = True\<rparr>) (step_correct st)"

text \<open>The f-string \<^verbatim>\<open>f"SS:{card['id']}:1:false"\<close>.\<close>

definition card_answer :: "card \<Rightarrow> formatted_answer" where
  "card_answer c = \<lparr>answer = ''SS:'' @ card_id c @ '':1:false'', correct = True\<rparr>"

text \<open>
  The two nested loops that append every card of every carousel item to \<^verbatim>\<open>cards\<close>.
\<close>

fun append_cards :: "card list \<Rightarrow> card list \<Rightarrow> card list" where
  "append_cards [] cards = cards"
| "append_cards (c # cs) cards = append_cards cs (cards @ [c])"

fun flatten_carousel :: "card list list \<Rightarrow> card list \<Rightarrow> card list" where
  "flatten_carousel [] cards = cards"
| "flatten_carousel (item # items) cards = flatten_carousel items (append_cards item cards)"

text \<open>
  The result is \<open>Inl e\<close> when the call raises \<open>e\<close>, \<open>Inr None\<close> when the function
  body ends without reaching a \<^verbatim>\<open>return\<close> (Python then returns \<^verbatim>\<open>None\<close>), and
  \<open>Inr (Some p)\<close> when it returns the dictionary \<open>p\<close>. The second letter of the first
  title is the code point U+00E9.
\<close>

definition format_answers :: "step \<Rightarrow> py_error + plan option" where
  "format_answers st =
     (if step_type st = ''card'' then
        (case step_content st of
           [] \<Rightarrow> Inl IndexError
         | c0 # _ \<Rightarrow>
             if additionalContent c0 \<noteq> None then
               Inr (Some \<lparr>fragmented = False, answers = correct_answers st,
                          title = ''D'' @ [CHR 0xE9] @ ''monstration''\<rparr>)
             else
               (case carousel c0 of
                  Some items \<Rightarrow>
                    Inr (Some \<lparr>fragmented = True, answers = map card_answer (flatten_carousel items []),
                               title = ''Vocabulaire''\<rparr>)
                | None \<Rightarrow> Inr None))
      else
        Inr (Some \<lparr>fragmented = False, answers = correct_answers st,
                   title =
                     (if step_type st = ''multipleChoice'' then ''Choix multiple''
                      else if step_type st = ''sequencing'' then ''Organiser''
                      else if step_type st = ''cloze'' then ''Remplissez les blancs''
                      else ''Module inconnu'')\<rparr>))"

section \<open>Course discovery\<close>

text \<open>An element of a progress entry's \<^verbatim>\<open>'sequences'\<close>.\<close>

record progress_sequence =
  progress_id :: string
  percentComplete :: real

text \<open>An element of \<^verbatim>\<open>rep_json['data']['progress']\<close>.\<close>

record course_progress =
  progress_courseId :: string
  progress_sequences :: "progress_sequence list"

text \<open>An element of an assigned course's \<^verbatim>\<open>'sequences'\<close>.\<close>

record assigned_sequence =
  sequence_id :: string
  sequence_title :: string

text \<open>An element of \<^verbatim>\<open>rep_json['data']['assignedCourses']\<close>.\<close>

record assigned_course =
  courseId :: string
  course_title :: string
  sequences :: "assigned_sequence list"

text \<open>A lesson kept by \<^verbatim>\<open>_get_courses\<close>, and the value stored for a course.\<close>

record lesson =
  lesson_id :: string
  lesson_title :: string
  slug :: string

record course_entry =
  entry_title :: string
  lessons :: "lesson list"

text \<open>
  The inner loop of \<^verbatim>\<open>get_lesson_progress\<close>: the first sequence with the lesson's
  id ends the whole function; \<open>None\<close> when the loop ends without a \<^verbatim>\<open>return\<close>.
\<close>

fun find_sequence :: "progress_sequence list \<Rightarrow> string \<Rightarrow> real option" where
  "find_sequence [] lid = None"
| "find_sequence (sq # sqs) lid =
     (if progress_id sq = lid then Some (percentComplete sq) else find_sequence sqs lid)"

fun get_lesson_progress :: "course_progress list \<Rightarrow> string \<Rightarrow> string \<Rightarrow> real" where
  "get_lesson_progress [] cid lid = 0"
| "get_lesson_progress (c # cs) cid lid =
     (if progress_courseId c \<noteq> cid then get_lesson_progress cs cid lid
      else (case find_sequence (progress_sequences c) lid of
              Some p \<Rightarrow> p
            | None \<Rightarrow> get_lesson_progress cs cid lid))"

text \<open>
  The loop over \<^verbatim>\<open>course['sequences']\<close> in \<^verbatim>\<open>_get_courses\<close>, appending to
  \<^verbatim>\<open>lessons\<close>. The slug function is the external \<^verbatim>\<open>slugify\<close>, a parameter.
\<close>

definition lesson_entry :: "(string \<Rightarrow> string) \<Rightarrow> assigned_sequence \<Rightarrow> lesson" where
  "lesson_entry slugify l =
     \<lparr>lesson_id = sequence_id l, lesson_title = sequence_title l,
      slug = slugify (sequence_title l)\<rparr>"

fun collect_lessons ::
  "(string \<Rightarrow> string) \<Rightarrow> real \<Rightarrow> course_progress list \<Rightarrow> string \<Rightarrow>
   assigned_sequence list \<Rightarrow> lesson list \<Rightarrow> lesson list" where
  "collect_lessons slugify threshold progress cid [] ls = ls"
| "collect_lessons slugify threshold progress cid (l # rest) ls =
     collect_lessons slugify threshold progress cid rest
       (if get_lesson_progress progress cid (sequence_id l) \<le> threshold
        then ls @ [lesson_entry slugify l]
        else ls)"

text \<open>
  The loop over the assigned courses. \<^verbatim>\<open>courses\<close> is a dictionary: an association
  list in insertion order, where storing under a key already present replaces the value
  in place.
\<close>

fun collect_courses ::
  "(string \<Rightarrow> string) \<Rightarrow> real \<Rightarrow> course_progress list \<Rightarrow> assigned_course list \<Rightarrow>
   (string \<times> course_entry) list \<Rightarrow> (string \<times> course_entry) list" where
  "collect_courses slugify threshold progress [] courses = courses"
| "collect_courses slugify threshold progress (c # cs) courses =
     (let course_id = courseId c;
          ls = collect_lessons slugify threshold progress course_id (sequences c) []
      in collect_courses slugify threshold progress cs
           (if length ls > 0
            then AList.update course_id \<lparr>entry_title = course_title c, lessons = ls\<rparr> courses
            else courses))"

section \<open>Requests, replies and the session\<close>

text \<open>A \<^verbatim>\<open>requests\<close> reply: its status code and its parsed JSON body.\<close>

record 'b response =
  status_code :: int
  body :: 'b

record auth_body =
  userId :: string
  access_token :: string

record courses_body =
  progress :: "course_progress list"
  assignedCourses :: "assigned_course list"

text \<open>An activity of a lesson: its \<^verbatim>\<open>'activityId'\<close> and its \<^verbatim>\<open>"steps"\<close>.\<close>

record activity =
  activityId :: string
  steps :: "step list"

text \<open>
  The parsed reply to a submission; \<open>errors\<close> is \<open>None\<close> when the dictionary has no
  \<^verbatim>\<open>'errors'\<close> key.
\<close>

record progress_body =
  errors :: "string list option"

text \<open>The dictionary \<^verbatim>\<open>data\<close> handed to \<^verbatim>\<open>_get_answer\<close>.\<close>

record answer_data =
  user_id :: string
  course_id :: string
  sequence_id_data :: string
  activity_id :: string
  activity_step_id :: string
  answers_data :: "formatted_answer list"

text \<open>
  The payload \<^verbatim>\<open>_get_answer\<close> builds: \<^verbatim>\<open>variables.userId\<close> and the fields of the one
  element of \<^verbatim>\<open>variables.messages\<close>. The constant operation name, query text and user
  agent are left out.
\<close>

record payload =
  msg_userId :: string
  msg_courseId :: string
  msg_sequenceId :: string
  msg_version :: int
  msg_activityId :: string
  msg_activityAttemptId :: string
  msg_activityStepId :: string
  msg_activityStepAttemptId :: string
  msg_answers :: "formatted_answer list"
  msg_score :: int
  msg_skip :: bool
  durationMs :: int
  endTimestamp :: string

text \<open>
  The requests the script posts: the token request (user name, password), and the three
  operations of the query endpoint, each under the bearer token.
\<close>

datatype request =
    TokenRequest string string
  | GetCoursesAndProgress string
  | GetSequence string string string
  | AddProgress string payload

text \<open>
  Everything outside the script. The operator's inputs: \<open>input_hours\<close> is the value of
  \<^verbatim>\<open>float(input(...))\<close>, \<open>None\<close> when \<^verbatim>\<open>float\<close> raises \<^verbatim>\<open>ValueError\<close>. The
  server: the reply to the token request, to the course query, and to the request posted
  when \<open>n\<close> requests have been posted before it. The library: \<^verbatim>\<open>slugify\<close>, the
  \<open>n\<close>-th value of \<^verbatim>\<open>random.uniform(0., 0.1)\<close>, the \<open>n\<close>-th \<^verbatim>\<open>uuid.uuid4()\<close>, and
  the clock read when \<open>n\<close> requests have been posted.
\<close>

record world =
  input_id :: string
  input_pass :: string
  input_hours :: "real option"
  slugify :: "string \<Rightarrow> string"
  auth_reply :: "auth_body response"
  courses_reply :: "courses_body response"
  sequence_reply :: "nat \<Rightarrow> activity list"
  progress_reply :: "nat \<Rightarrow> progress_body response"
  uniform :: "nat \<Rightarrow> real"
  uuid4 :: "nat \<Rightarrow> string"
  now :: "nat \<Rightarrow> string"

text \<open>
  The mutable part of a run once the loops start: \<^verbatim>\<open>self.version\<close>, the requests
  posted so far in order, and how many identifiers and random numbers have been drawn.
\<close>

record state =
  version :: int
  sent :: "request list"
  uuids :: nat
  draws :: nat

section \<open>Submitting a step\<close>

text \<open>Python's \<^verbatim>\<open>int\<close> of a float: truncation towards zero.\<close>

definition py_int :: "real \<Rightarrow> int" where
  "py_int x = (if 0 \<le> x then \<lfloor>x\<rfloor> else \<lceil>x\<rceil>)"

definition get_answer :: "world \<Rightarrow> real \<Rightarrow> answer_data \<Rightarrow> state \<Rightarrow> payload \<times> state" where
  "get_answer w hours data s =
     (let timestamp_now = now w (length (sent s)) @ ''Z'' in
      (\<lparr>msg_userId = user_id data,
        msg_courseId = course_id data,
        msg_sequenceId = sequence_id_data data,
        msg_version = version s,
        msg_activityId = activity_id data,
        msg_activityAttemptId = uuid4 w (uuids s),
        msg_activityStepId = activity_step_id data,
        msg_activityStepAttemptId = uuid4 w (uuids s + 1),
        msg_answers = answers_data data,
        msg_score = 1,
        msg_skip = False,
        durationMs = py_int (hours * 60 * 60 * 1000),
        endTimestamp = timestamp_now\<rparr>,
       s\<lparr>uuids := uuids s + 2\<rparr>))"

definition answer_success :: "progress_body \<Rightarrow> state \<Rightarrow> bool \<times> state" where
  "answer_success response s =
     (if errors response \<noteq> None then (False, s\<lparr>version := (version s + 1) mod 2\<rparr>)
      else (True, s))"

text \<open>\<^verbatim>\<open>requests.post(URL_API, headers=self.headers, json=payload)\<close> for a submission.\<close>

definition post_progress ::
  "world \<Rightarrow> string \<Rightarrow> payload \<Rightarrow> state \<Rightarrow> progress_body response \<times> state" where
  "post_progress w token p s =
     (progress_reply w (length (sent s)), s\<lparr>sent := sent s @ [AddProgress token p]\<rparr>)"

text \<open>
  One iteration of the loop of the fragmented branch, for the answer \<open>a\<close> and the
  current value of \<^verbatim>\<open>success\<close>. Python's \<^verbatim>\<open>and\<close> evaluates its right operand, the
  call of \<^verbatim>\<open>_answer_success\<close>, only when \<^verbatim>\<open>success\<close> is true.
\<close>

definition submit_fragment ::
  "world \<Rightarrow> string \<Rightarrow> answer_data \<Rightarrow> real \<Rightarrow> formatted_answer \<Rightarrow> bool \<Rightarrow> state \<Rightarrow>
   bool \<times> state" where
  "submit_fragment w token data0 time_to_answer a success s =
     (let data = data0\<lparr>answers_data := [a]\<rparr>;
          (p, s1) = get_answer w time_to_answer data s;
          (rep_answer, s2) = post_progress w token p s1
      in if success then answer_success (body rep_answer) s2 else (False, s2))"

text \<open>The loop, over the answers left.\<close>

fun submit_fragments ::
  "world \<Rightarrow> string \<Rightarrow> answer_data \<Rightarrow> real \<Rightarrow> formatted_answer list \<Rightarrow> bool \<Rightarrow> state \<Rightarrow>
   bool \<times> state" where
  "submit_fragments w token data0 time_to_answer [] success s = (success, s)"
| "submit_fragments w token data0 time_to_answer (a # rest) success s =
     (case submit_fragment w token data0 time_to_answer a success s of
        (success', s') \<Rightarrow> submit_fragments w token data0 time_to_answer rest success' s')"

text \<open>
  \<^verbatim>\<open>_complete_step\<close>. Subscripting the \<^verbatim>\<open>None\<close> that \<^verbatim>\<open>format_answers\<close> may return
  raises \<^verbatim>\<open>TypeError\<close>; dividing by the length of an empty answer list raises
  \<^verbatim>\<open>ZeroDivisionError\<close>.
\<close>

definition complete_step ::
  "world \<Rightarrow> string \<Rightarrow> string \<Rightarrow> string \<Rightarrow> lesson \<Rightarrow> string \<Rightarrow> step \<Rightarrow> real \<Rightarrow> state \<Rightarrow>
   (py_error + bool) \<times> state" where
  "complete_step w token uid cid lsn aid st hours s =
     (case format_answers st of
        Inl e \<Rightarrow> (Inl e, s)
      | Inr None \<Rightarrow> (Inl TypeError, s)
      | Inr (Some formatted_answers) \<Rightarrow>
          (let data0 = \<lparr>user_id = uid, course_id = cid, sequence_id_data = lesson_id lsn,
                        activity_id = aid, activity_step_id = activityStepId st,
                        answers_data = answers formatted_answers\<rparr>
           in if fragmented formatted_answers then
                (if length (answers formatted_answers) = 0 then (Inl ZeroDivisionError, s)
                 else
                   (let time_to_answer = hours / real (length (answers formatted_answers));
                        (success, s') =
                           submit_fragments w token data0 time_to_answer
                             (answers formatted_answers) True s
                    in (Inr success, s')))
              else
                (let (p, s1) = get_answer w hours data0 s;
                     (rep_answer, s2) = post_progress w token p s1
                 in (Inr (status_code rep_answer = 200), s2))))"

section \<open>Completing a lesson\<close>

text \<open>The jittered duration of a step, from the value \<open>u\<close> drawn for it.\<close>

definition random_hours :: "real \<Rightarrow> real \<Rightarrow> real" where
  "random_hours hours_per_activity u = hours_per_activity + hours_per_activity * u"

text \<open>
  The loop over the steps of one activity, and the loop over the activities. An exception
  raised by \<^verbatim>\<open>_complete_step\<close> ends both.
\<close>

fun complete_steps ::
  "world \<Rightarrow> string \<Rightarrow> string \<Rightarrow> string \<Rightarrow> lesson \<Rightarrow> string \<Rightarrow> real \<Rightarrow> step list \<Rightarrow> state \<Rightarrow>
   (py_error + unit) \<times> state" where
  "complete_steps w token uid cid lsn aid hpa [] s = (Inr (), s)"
| "complete_steps w token uid cid lsn aid hpa (st # rest) s =
     (let hours = random_hours hpa (uniform w (draws s));
          s0 = s\<lparr>draws := draws s + 1\<rparr>
      in case complete_step w token uid cid lsn aid st hours s0 of
           (Inl e, s1) \<Rightarrow> (Inl e, s1)
         | (Inr success, s1) \<Rightarrow> complete_steps w token uid cid lsn aid hpa rest s1)"

fun complete_activities ::
  "world \<Rightarrow> string \<Rightarrow> string \<Rightarrow> string \<Rightarrow> lesson \<Rightarrow> real \<Rightarrow> activity list \<Rightarrow> state \<Rightarrow>
   (py_error + unit) \<times> state" where
  "complete_activities w token uid cid lsn hpa [] s = (Inr (), s)"
| "complete_activities w token uid cid lsn hpa (a # rest) s =
     (case complete_steps w token uid cid lsn (activityId a) hpa (steps a) s of
        (Inl e, s1) \<Rightarrow> (Inl e, s1)
      | (Inr _, s1) \<Rightarrow> complete_activities w token uid cid lsn hpa rest s1)"

text \<open>\<^verbatim>\<open>self.hours_per_lesson / len(activities)\<close>.\<close>

definition hours_per_activity :: "real \<Rightarrow> 'a list \<Rightarrow> py_error + real" where
  "hours_per_activity hours_per_lesson activities =
     (if length activities = 0 then Inl ZeroDivisionError
      else Inr (hours_per_lesson / real (length activities)))"

definition complete_lesson ::
  "world \<Rightarrow> string \<Rightarrow> string \<Rightarrow> real \<Rightarrow> string \<Rightarrow> lesson \<Rightarrow> state \<Rightarrow> (py_error + unit) \<times> state" where
  "complete_lesson w token uid hours_per_lesson cid lsn s =
     (let activities = sequence_reply w (length (sent s));
          s1 = s\<lparr>sent := sent s @ [GetSequence token cid (slug lsn)]\<rparr>
      in case hours_per_activity hours_per_lesson activities of
           Inl e \<Rightarrow> (Inl e, s1)
         | Inr hpa \<Rightarrow> complete_activities w token uid cid lsn hpa activities s1)"

section \<open>The run\<close>

text \<open>\<^verbatim>\<open>_authenticate\<close>: the requests posted, and the user id and token or \<^verbatim>\<open>exit(1)\<close>.\<close>

definition authenticate :: "world \<Rightarrow> (py_error + string \<times> string) \<times> request list" where
  "authenticate w =
     (let rep = auth_reply w;
          posted = [TokenRequest (input_id w) (input_pass w)]
      in if status_code rep \<noteq> 200 then (Inl (SystemExit 1), posted)
         else (Inr (userId (body rep), access_token (body rep)), posted))"

text \<open>\<^verbatim>\<open>_get_courses\<close>, after the requests \<open>posted\<close>.\<close>

definition get_courses ::
  "world \<Rightarrow> string \<Rightarrow> real \<Rightarrow> request list \<Rightarrow>
   (py_error + (string \<times> course_entry) list) \<times> request list" where
  "get_courses w token threshold posted =
     (let rep = courses_reply w;
          posted' = posted @ [GetCoursesAndProgress token]
      in if status_code rep \<noteq> 200 then (Inl (SystemExit 1), posted')
         else
           (let courses = collect_courses (slugify w) threshold (progress (body rep))
                            (assignedCourses (body rep)) []
            in if length courses = 0 then (Inl (SystemExit 0), posted')
               else (Inr courses, posted')))"

text \<open>\<^verbatim>\<open>_calculate_hours\<close>: the lesson count, and the division.\<close>

fun count_lessons :: "(string \<times> course_entry) list \<Rightarrow> nat \<Rightarrow> nat" where
  "count_lessons [] n = n"
| "count_lessons ((cid, infos) # rest) n = count_lessons rest (n + length (lessons infos))"

definition calculate_hours :: "real \<Rightarrow> (string \<times> course_entry) list \<Rightarrow> py_error + real" where
  "calculate_hours hours_todo courses =
     (let n = count_lessons courses 0
      in if n = 0 then Inl ZeroDivisionError else Inr (hours_todo / real n))"

text \<open>The two loops at the end of \<^verbatim>\<open>__init__\<close>.\<close>

fun complete_lessons ::
  "world \<Rightarrow> string \<Rightarrow> string \<Rightarrow> real \<Rightarrow> string \<Rightarrow> lesson list \<Rightarrow> state \<Rightarrow>
   (py_error + unit) \<times> state" where
  "complete_lessons w token uid hpl cid [] s = (Inr (), s)"
| "complete_lessons w token uid hpl cid (lsn # rest) s =
     (case complete_lesson w token uid hpl cid lsn s of
        (Inl e, s1) \<Rightarrow> (Inl e, s1)
      | (Inr _, s1) \<Rightarrow> complete_lessons w token uid hpl cid rest s1)"

fun complete_courses ::
  "world \<Rightarrow> string \<Rightarrow> string \<Rightarrow> real \<Rightarrow> (string \<times> course_entry) list \<Rightarrow> state \<Rightarrow>
   (py_error + unit) \<times> state" where
  "complete_courses w token uid hpl [] s = (Inr (), s)"
| "complete_courses w token uid hpl ((cid, infos) # rest) s =
     (case complete_lessons w token uid hpl cid (lessons infos) s of
        (Inl e, s1) \<Rightarrow> (Inl e, s1)
      | (Inr _, s1) \<Rightarrow> complete_courses w token uid hpl rest s1)"

text \<open>The \<^verbatim>\<open>try\<close> block of \<^verbatim>\<open>__init__\<close> that sets \<^verbatim>\<open>self.hours_todo\<close>.\<close>

definition read_hours_todo :: "world \<Rightarrow> real \<Rightarrow> real" where
  "read_hours_todo w hours_todo = (case input_hours w of Some h \<Rightarrow> h | None \<Rightarrow> hours_todo)"

text \<open>
  \<^verbatim>\<open>RosettaStone.__init__\<close> after \<^verbatim>\<open>self.hours_todo\<close> is set. The result is how the run
  ends (\<open>Inr ()\<close> when the constructor returns) and the requests posted, in order.
\<close>

definition start_machine :: "world \<Rightarrow> real \<Rightarrow> real \<Rightarrow> (py_error + unit) \<times> request list" where
  "start_machine w hours threshold =
     (case authenticate w of
        (Inl e, posted) \<Rightarrow> (Inl e, posted)
      | (Inr (uid, token), posted) \<Rightarrow>
          (case get_courses w token threshold posted of
             (Inl e, posted') \<Rightarrow> (Inl e, posted')
           | (Inr courses, posted') \<Rightarrow>
               (case calculate_hours hours courses of
                  Inl e \<Rightarrow> (Inl e, posted')
                | Inr hpl \<Rightarrow>
                    (case complete_courses w token uid hpl courses
                            \<lparr>version = 1, sent = posted', uuids = 0, draws = 0\<rparr> of
                       (r, s) \<Rightarrow> (r, sent s)))))"

definition RosettaStone :: "world \<Rightarrow> real \<Rightarrow> real \<Rightarrow> (py_error + unit) \<times> request list" where
  "RosettaStone w hours_todo threshold = start_machine w (read_hours_todo w hours_todo) threshold"

text \<open>The script's entry point calls the constructor with its defaults.\<close>

definition main :: "world \<Rightarrow> (py_error + unit) \<times> request list" where
  "main w = RosettaStone w 20 0.2"

section \<open>Observing a run\<close>

text \<open>The payloads of the submissions among a list of requests, in order.\<close>

fun progress_payloads :: "request list \<Rightarrow> payload list" where
  "progress_payloads [] = []"
| "progress_payloads (AddProgress token p # rs) = p # progress_payloads rs"
| "progress_payloads (r # rs) = progress_payloads rs"


text \<open>Every lesson of a discovery result, in the order the run completes them.\<close>

definition all_lessons :: "(string \<times> course_entry) list \<Rightarrow> lesson list" where
  "all_lessons courses = concat (map (\<lambda>(cid, infos). lessons infos) courses)"

section \<open>Example inputs\<close>

text \<open>
  A card step whose first content element has neither an \<^verbatim>\<open>additionalContent\<close> key
  nor a \<^verbatim>\<open>carousel\<close> key: one of the Grammar or Pronunciation cards that the comment in
  \<^verbatim>\<open>format_answers\<close> lists beside Demo and Vocabulary.
\<close>

definition card_step_without_shape :: step where
  "card_step_without_shape =
     \<lparr>step_type = ''card'', step_content = [\<lparr>additionalContent = None, carousel = None\<rparr>],
      step_correct = [''a''], activityStepId = ''step-1''\<rparr>"

text \<open>A vocabulary step with two cards, and a multiple-choice step.\<close>

definition vocabulary_step :: step where
  "vocabulary_step =
     \<lparr>step_type = ''card'',
      step_content = [\<lparr>additionalContent = None,
                       carousel = Some [[\<lparr>card_id = ''w1''\<rparr>], [\<lparr>card_id = ''w2''\<rparr>]]\<rparr>],
      step_correct = [], activityStepId = ''step-2''\<rparr>"

definition choice_step :: step where
  "choice_step =
     \<lparr>step_type = ''multipleChoice'', step_content = [], step_correct = [''b''],
      activityStepId = ''step-3''\<rparr>"

text \<open>
  A world with one course of three lessons, of which the first is at the threshold, the
  second above it and the third absent from the progress report. Every lesson has one
  activity, of a vocabulary step and a multiple-choice step. The server replies 200 to
  every submission and rejects, with an error list, the request posted fourth.
\<close>

definition sample_world :: world where
  "sample_world =
     \<lparr>input_id = ''student@example.org'', input_pass = ''secret'', input_hours = None,
      slugify = (\<lambda>t. t),
      auth_reply = \<lparr>status_code = 200, body = \<lparr>userId = ''u1'', access_token = ''tok''\<rparr>\<rparr>,
      courses_reply =
        \<lparr>status_code = 200,
         body = \<lparr>progress =
                   [\<lparr>progress_courseId = ''c1'',
                     progress_sequences =
                       [\<lparr>progress_id = ''l1'', percentComplete = 0.2\<rparr>,
                        \<lparr>progress_id = ''l2'', percentComplete = 0.9\<rparr>]\<rparr>],
                 assignedCourses =
                   [\<lparr>courseId = ''c1'', course_title = ''Course'',
                     sequences =
                       [\<lparr>sequence_id = ''l1'', sequence_title = ''one''\<rparr>,
                        \<lparr>sequence_id = ''l2'', sequence_title = ''two''\<rparr>,
                        \<lparr>sequence_id = ''l3'', sequence_title = ''three''\<rparr>]\<rparr>]\<rparr>\<rparr>,
      sequence_reply = (\<lambda>n. [\<lparr>activityId = ''a1'', steps = [vocabulary_step, choice_step]\<rparr>]),
      progress_reply =
        (\<lambda>n. \<lparr>status_code = 200,
               body = \<lparr>errors = (if n = 3 then Some [''unknown version''] else None)\<rparr>\<rparr>),
      uniform = (\<lambda>n. 0),
      uuid4 = (\<lambda>n. ''id''),
      now = (\<lambda>n. ''2023-07-01T10:00:00'')\<rparr>"

definition lesson_one :: lesson where
  "lesson_one = \<lparr>lesson_id = ''l1'', lesson_title = ''one'', slug = ''one''\<rparr>"

definition start_state :: state where
  "start_state =
     \<lparr>version = 1,
      sent = [TokenRequest ''student@example.org'' ''secret'', GetCoursesAndProgress ''tok'',
              GetSequence ''tok'' ''c1'' ''one''],
      uuids = 0, draws = 1\<rparr>"




definition sample_courses :: "(string \<times> course_entry) list" where
  "sample_courses =
     [(''c1'', \<lparr>entry_title = ''Course'',
               lessons = [\<lparr>lesson_id = ''l1'', lesson_title = ''one'', slug = ''one''\<rparr>,
                          \<lparr>lesson_id = ''l3'', lesson_title = ''three'', slug = ''three''\<rparr>]\<rparr>)]"

definition finished_world :: world where
  "finished_world =
     sample_world\<lparr>courses_reply :=
        \<lparr>status_code = 200,
         body = \<lparr>progress =
                   [\<lparr>progress_courseId = ''c1'',
                     progress_sequences = [\<lparr>progress_id = ''l1'', percentComplete = 1\<rparr>]\<rparr>],
                 assignedCourses =
                   [\<lparr>courseId = ''c1'', course_title = ''Course'',
                     sequences = [\<lparr>sequence_id = ''l1'', sequence_title = ''one''\<rparr>]\<rparr>]\<rparr>\<rparr>\<rparr>"

section \<open>The answer formatter\<close>

lemma append_cards_eq: "append_cards item cards = cards @ item"
  by (induction item arbitrary: cards) simp_all

lemma flatten_carousel_eq: "flatten_carousel items cards = cards @ concat items"
  by (induction items arbitrary: cards) (simp_all add: append_cards_eq)

text \<open>
  Claim C3 says that the answer formatter returns a plan with a fragmented flag, an answer
  list and a title for every step, and never fails or returns nothing. On the card step
  above no branch of \<^verbatim>\<open>format_answers\<close> returns: the result is Python's \<^verbatim>\<open>None\<close>, and
  \<^verbatim>\<open>_complete_step\<close>, which subscripts it, raises \<^verbatim>\<open>TypeError\<close> before posting anything.
\<close>

theorem format_answers_card_without_shape:
  "format_answers card_step_without_shape = Inr None \<and>
   complete_step w token uid cid lsn aid card_step_without_shape hours s = (Inl TypeError, s)"
  by (simp add: format_answers_def complete_step_def card_step_without_shape_def)

section \<open>One submission\<close>

lemma get_answer_state:
  "snd (get_answer w hours d s) = s\<lparr>uuids := uuids s + 2\<rparr>"
  by (simp add: get_answer_def Let_def)

lemma get_answer_payload:
  "msg_answers (fst (get_answer w hours d s)) = answers_data d"
  "msg_version (fst (get_answer w hours d s)) = version s"
  "durationMs (fst (get_answer w hours d s)) = py_int (hours * 60 * 60 * 1000)"
  by (simp_all add: get_answer_def Let_def)

lemma submit_fragment_sent:
  "sent (snd (submit_fragment w token d t a success s)) =
     sent s @ [AddProgress token (fst (get_answer w t (d\<lparr>answers_data := [a]\<rparr>) s))]"
  by (simp add: submit_fragment_def post_progress_def answer_success_def Let_def
        get_answer_def)

lemma submit_fragment_success:
  "fst (submit_fragment w token d t a success s) =
     (success \<and> errors (body (progress_reply w (length (sent s)))) = None)"
  by (simp add: submit_fragment_def post_progress_def answer_success_def Let_def
        get_answer_def)

lemma submit_fragment_version:
  "version (snd (submit_fragment w token d t a success s)) =
     (if success \<and> errors (body (progress_reply w (length (sent s)))) \<noteq> None
      then (version s + 1) mod 2 else version s)"
  by (simp add: submit_fragment_def post_progress_def answer_success_def Let_def
        get_answer_def)

section \<open>The fragmented loop\<close>

lemma submit_fragments_sent:
  "\<exists>ps. sent (snd (submit_fragments w token d t as success s)) = sent s @ map (AddProgress token) ps
        \<and> map msg_answers ps = map (\<lambda>a. [a]) as
        \<and> (\<forall>p \<in> set ps. durationMs p = py_int (t * 60 * 60 * 1000))"
proof (induction as arbitrary: success s)
  case Nil
  show ?case by simp
next
  case (Cons a as)
  obtain ok s1 where step: "submit_fragment w token d t a success s = (ok, s1)"
    by (cases "submit_fragment w token d t a success s")
  define p where "p = fst (get_answer w t (d\<lparr>answers_data := [a]\<rparr>) s)"
  have s1: "sent s1 = sent s @ [AddProgress token p]"
    using submit_fragment_sent [of w token d t a success s] step by (simp add: p_def)
  obtain ps where ps: "sent (snd (submit_fragments w token d t as ok s1)) = sent s1 @ map (AddProgress token) ps"
      "map msg_answers ps = map (\<lambda>a. [a]) as"
      "\<forall>p \<in> set ps. durationMs p = py_int (t * 60 * 60 * 1000)"
    using Cons.IH [of ok s1] by blast
  have "sent (snd (submit_fragments w token d t (a # as) success s)) = sent s @ map (AddProgress token) (p # ps)"
    using step s1 ps(1) by simp
  moreover have "map msg_answers (p # ps) = map (\<lambda>a. [a]) (a # as)"
    using ps(2) by (simp add: p_def get_answer_payload)
  moreover have "\<forall>q \<in> set (p # ps). durationMs q = py_int (t * 60 * 60 * 1000)"
    using ps(3) by (simp add: p_def get_answer_payload)
  ultimately show ?case by blast
qed

lemma submit_fragments_length:
  "length (sent (snd (submit_fragments w token d t as success s))) = length (sent s) + length as"
proof -
  obtain ps where "sent (snd (submit_fragments w token d t as success s)) = sent s @ map (AddProgress token) ps"
    "map msg_answers ps = map (\<lambda>a. [a]) as"
    using submit_fragments_sent by blast
  moreover from this(2) have "length ps = length as" by (metis length_map)
  ultimately show ?thesis by simp
qed

lemma submit_fragments_success:
  "fst (submit_fragments w token d t as success s) =
     (success \<and> (\<forall>i < length as. errors (body (progress_reply w (length (sent s) + i))) = None))"
proof (induction as arbitrary: success s)
  case Nil
  show ?case by simp
next
  case (Cons a as)
  obtain ok s1 where step: "submit_fragment w token d t a success s = (ok, s1)"
    by (cases "submit_fragment w token d t a success s")
  have ok: "ok = (success \<and> errors (body (progress_reply w (length (sent s)))) = None)"
    using submit_fragment_success [of w token d t a success s] step by simp
  have len: "length (sent s1) = Suc (length (sent s))"
    using submit_fragment_sent [of w token d t a success s] step by simp
  have "fst (submit_fragments w token d t (a # as) success s) =
        (ok \<and> (\<forall>i < length as. errors (body (progress_reply w (length (sent s1) + i))) = None))"
    using step Cons.IH [of ok s1] by simp
  also have "\<dots> = (success \<and> (\<forall>i < length (a # as). errors (body (progress_reply w (length (sent s) + i))) = None))"
    unfolding ok len by (auto simp: less_Suc_eq_0_disj)
  finally show ?case .
qed


lemma ex_less_Suc_shift:
  "(\<exists>i < Suc n. P (m + i)) = (P m \<or> (\<exists>i < n. P (Suc m + i)))"
  by (auto simp: less_Suc_eq_0_disj)

lemma submit_fragments_version:
  "version (snd (submit_fragments w token d t as success s)) =
     (if success \<and> (\<exists>i < length as. errors (body (progress_reply w (length (sent s) + i))) \<noteq> None)
      then (version s + 1) mod 2 else version s)"
proof (induction as arbitrary: success s)
  case Nil
  show ?case by simp
next
  case (Cons a as)
  let ?E = "\<lambda>n. errors (body (progress_reply w n)) \<noteq> None"
  obtain ok s1 where step: "submit_fragment w token d t a success s = (ok, s1)"
    by (cases "submit_fragment w token d t a success s")
  have ok: "ok = (success \<and> \<not> ?E (length (sent s)))"
    using submit_fragment_success [of w token d t a success s] step by simp
  have len: "length (sent s1) = Suc (length (sent s))"
    using submit_fragment_sent [of w token d t a success s] step by simp
  have v1: "version s1 = (if success \<and> ?E (length (sent s))
      then (version s + 1) mod 2 else version s)"
    using submit_fragment_version [of w token d t a success s] step by simp
  have rec: "version (snd (submit_fragments w token d t (a # as) success s)) =
        (if ok \<and> (\<exists>i < length as. ?E (Suc (length (sent s)) + i))
         then (version s1 + 1) mod 2 else version s1)"
    using step Cons.IH [of ok s1] by (simp add: len)
  have shift: "(\<exists>i < length (a # as). ?E (length (sent s) + i)) =
        (?E (length (sent s)) \<or> (\<exists>i < length as. ?E (Suc (length (sent s)) + i)))"
    using ex_less_Suc_shift [of "length as" ?E "length (sent s)"] by simp
  show ?case
  proof (cases "success \<and> \<not> ?E (length (sent s))")
    case True
    then have "ok" "version s1 = version s" using ok v1 by simp_all
    then show ?thesis unfolding rec shift using True by auto
  next
    case False
    then have "\<not> ok" using ok by simp
    then show ?thesis unfolding rec shift using False v1 by auto
  qed
qed

section \<open>What a step posts and reports\<close>

lemma progress_payloads_map [simp]: "progress_payloads (map (AddProgress token) ps) = ps"
  by (induction ps) simp_all

lemma complete_step_fragmented:
  assumes "format_answers st = Inr (Some fa)" "fragmented fa" "answers fa \<noteq> []"
  shows "complete_step w token uid cid lsn aid st hours s =
           (Inr (fst (submit_fragments w token
                   \<lparr>user_id = uid, course_id = cid, sequence_id_data = lesson_id lsn,
                     activity_id = aid, activity_step_id = activityStepId st,
                     answers_data = answers fa\<rparr>
                   (hours / real (length (answers fa))) (answers fa) True s)),
            snd (submit_fragments w token
                   \<lparr>user_id = uid, course_id = cid, sequence_id_data = lesson_id lsn,
                     activity_id = aid, activity_step_id = activityStepId st,
                     answers_data = answers fa\<rparr>
                   (hours / real (length (answers fa))) (answers fa) True s))"
  using assms by (simp add: complete_step_def Let_def split: prod.splits)

lemma complete_step_fragmented_empty:
  assumes "format_answers st = Inr (Some fa)" "fragmented fa" "answers fa = []"
  shows "complete_step w token uid cid lsn aid st hours s = (Inl ZeroDivisionError, s)"
  using assms by (simp add: complete_step_def)

lemma complete_step_single:
  assumes "format_answers st = Inr (Some fa)" "\<not> fragmented fa"
  shows "complete_step w token uid cid lsn aid st hours s =
           (Inr (status_code (progress_reply w (length (sent s))) = 200),
            s\<lparr>uuids := uuids s + 2,
              sent := sent s @ [AddProgress token (fst (get_answer w hours
                 \<lparr>user_id = uid, course_id = cid, sequence_id_data = lesson_id lsn,
                   activity_id = aid, activity_step_id = activityStepId st,
                   answers_data = answers fa\<rparr> s))]\<rparr>)"
  using assms by (simp add: complete_step_def Let_def get_answer_def post_progress_def)

lemmas run_defs = complete_step_def format_answers_def correct_answers_def card_answer_def
  submit_fragment_def get_answer_def post_progress_def answer_success_def py_int_def
  random_hours_def sample_world_def vocabulary_step_def choice_step_def lesson_one_def
  start_state_def Let_def

text \<open>
  Claim C4: the step submission reports success, for a fragmented plan, iff no parsed reply
  to its requests contains an error list, and for a single-shot plan iff the status code of
  the reply is 200. (A fragmented plan without answers posts nothing and raises
  \<^verbatim>\<open>ZeroDivisionError\<close>, see \<open>complete_step_fragmented_empty\<close>.)
\<close>

theorem complete_step_success:
  assumes "format_answers st = Inr (Some fa)"
  shows "(fragmented fa \<longrightarrow> answers fa \<noteq> [] \<longrightarrow>
            fst (complete_step w token uid cid lsn aid st hours s) =
              Inr (\<forall>i < length (answers fa).
                     errors (body (progress_reply w (length (sent s) + i))) = None)) \<and>
         (\<not> fragmented fa \<longrightarrow>
            fst (complete_step w token uid cid lsn aid st hours s) =
              Inr (status_code (progress_reply w (length (sent s))) = 200))"
  using assms
  by (simp add: complete_step_fragmented complete_step_single submit_fragments_success)

theorem complete_step_success_witness:
  "fst (complete_step sample_world ''tok'' ''u1'' ''c1'' lesson_one ''a1''
          vocabulary_step 1 start_state) = Inr False \<and>
   fst (complete_step sample_world ''tok'' ''u1'' ''c1'' lesson_one ''a1''
          choice_step 1 start_state) = Inr True"
  using complete_step_success [of vocabulary_step
          "\<lparr>fragmented = True, answers = map card_answer [\<lparr>card_id = ''w1''\<rparr>, \<lparr>card_id = ''w2''\<rparr>],
            title = ''Vocabulaire''\<rparr>"
          sample_world "''tok''" "''u1''" "''c1''" lesson_one "''a1''" 1 start_state]
        complete_step_success [of choice_step
          "\<lparr>fragmented = False, answers = [\<lparr>answer = ''b'', correct = True\<rparr>],
            title = ''Choix multiple''\<rparr>"
          sample_world "''tok''" "''u1''" "''c1''" lesson_one "''a1''" 1 start_state]
  by (simp add: format_answers_def correct_answers_def vocabulary_step_def choice_step_def
        sample_world_def start_state_def)

text \<open>
  Claim C7: a vocabulary step whose carousel flattens to \<open>K\<close> cards posts exactly \<open>K\<close>
  submissions, the \<open>i\<close>-th carrying the single answer \<^verbatim>\<open>SS:<id of card i>:1:false\<close>,
  marked correct.
\<close>

theorem vocabulary_step_submissions:
  assumes "step_type st = ''card''" "step_content st = c0 # others"
    "additionalContent c0 = None" "carousel c0 = Some items"
  shows "\<exists>ps. sent (snd (complete_step w token uid cid lsn aid st hours s)) =
                 sent s @ map (AddProgress token) ps \<and>
              length ps = length (concat items) \<and>
              map msg_answers ps =
                map (\<lambda>c. [\<lparr>answer = ''SS:'' @ card_id c @ '':1:false'', correct = True\<rparr>])
                  (concat items)"
proof -
  define fa where "fa = \<lparr>fragmented = True, answers = map card_answer (concat items),
                         title = ''Vocabulaire''\<rparr>"
  have fa: "format_answers st = Inr (Some fa)"
    using assms by (simp add: format_answers_def fa_def flatten_carousel_eq)
  have frag: "fragmented fa" and ans: "answers fa = map card_answer (concat items)"
    by (simp_all add: fa_def)
  show ?thesis
  proof (cases "concat items = []")
    case True
    then have "complete_step w token uid cid lsn aid st hours s = (Inl ZeroDivisionError, s)"
      using complete_step_fragmented_empty [OF fa frag] ans by simp
    then show ?thesis using True by simp
  next
    case False
    then have ne: "answers fa \<noteq> []" using ans by simp
    obtain ps where ps:
      "sent (snd (complete_step w token uid cid lsn aid st hours s)) =
         sent s @ map (AddProgress token) ps"
      "map msg_answers ps = map (\<lambda>a. [a]) (answers fa)"
      unfolding complete_step_fragmented [OF fa frag ne]
      using submit_fragments_sent by (metis snd_conv)
    from ps(2) have "length ps = length (concat items)"
      using ans by (metis length_map)
    moreover have "map msg_answers ps =
        map (\<lambda>c. [\<lparr>answer = ''SS:'' @ card_id c @ '':1:false'', correct = True\<rparr>]) (concat items)"
      using ps(2) ans by (simp add: card_answer_def)
    ultimately show ?thesis using ps(1) by blast
  qed
qed

theorem vocabulary_step_submissions_witness:
  "\<exists>ps. sent (snd (complete_step sample_world ''tok'' ''u1'' ''c1'' lesson_one ''a1''
                     vocabulary_step 1 start_state)) =
           sent start_state @ map (AddProgress ''tok'') ps \<and>
         length ps = 2 \<and>
         map msg_answers ps = [[\<lparr>answer = ''SS:w1:1:false'', correct = True\<rparr>],
                               [\<lparr>answer = ''SS:w2:1:false'', correct = True\<rparr>]]"
  using vocabulary_step_submissions [of vocabulary_step
          "\<lparr>additionalContent = None,
            carousel = Some [[\<lparr>card_id = ''w1''\<rparr>], [\<lparr>card_id = ''w2''\<rparr>]]\<rparr>" "[]"
          "[[\<lparr>card_id = ''w1''\<rparr>], [\<lparr>card_id = ''w2''\<rparr>]]"
          sample_world "''tok''" "''u1''" "''c1''" lesson_one "''a1''" 1 start_state]
  by (simp add: vocabulary_step_def numeral_2_eq_2)

section \<open>The schema version\<close>





section \<open>Durations\<close>






section \<open>What discovery keeps\<close>

lemma collect_lessons_eq:
  "collect_lessons sl thr pr cid seqs ls =
     ls @ map (lesson_entry sl) (filter (\<lambda>l. get_lesson_progress pr cid (sequence_id l) \<le> thr) seqs)"
  by (induction seqs arbitrary: ls) simp_all



lemma set_update_subset: "set (AList.update k v al) \<subseteq> insert (k, v) (set al)"
  by (induction al) auto

lemma collect_courses_nonempty:
  "\<forall>e \<in> snd ` set acc. lessons e \<noteq> [] \<Longrightarrow>
   \<forall>e \<in> snd ` set (collect_courses sl thr pr cs acc). lessons e \<noteq> []"
proof (induction cs arbitrary: acc)
  case Nil
  then show ?case by simp
next
  case (Cons c cs)
  let ?ls = "collect_lessons sl thr pr (courseId c) (sequences c) []"
  let ?acc = "if length ?ls > 0
      then AList.update (courseId c) \<lparr>entry_title = course_title c, lessons = ?ls\<rparr> acc else acc"
  have "\<forall>e \<in> snd ` set ?acc. lessons e \<noteq> []"
    using Cons.prems set_update_subset [of "courseId c" "\<lparr>entry_title = course_title c, lessons = ?ls\<rparr>" acc]
    by (auto split: if_splits)
  from Cons.IH [OF this] show ?case by (simp add: Let_def)
qed



lemma collect_courses_none:
  "\<forall>c \<in> set cs. collect_lessons sl thr pr (courseId c) (sequences c) [] = [] \<Longrightarrow>
   collect_courses sl thr pr cs acc = acc"
  by (induction cs arbitrary: acc) (simp_all add: Let_def)

lemma count_lessons_length: "count_lessons courses n = n + length (all_lessons courses)"
  by (induction courses n rule: count_lessons.induct) (simp_all add: all_lessons_def)

lemma get_courses_Inr:
  assumes "fst (get_courses w token threshold posted) = Inr courses"
  shows "courses = collect_courses (slugify w) threshold (progress (body (courses_reply w)))
                     (assignedCourses (body (courses_reply w))) []"
    and "courses \<noteq> []" and "status_code (courses_reply w) = 200"
  using assms by (auto simp: get_courses_def Let_def split: if_splits)

lemma sample_discovery:
  "get_courses sample_world ''tok'' 0.2 [] = (Inr sample_courses, [GetCoursesAndProgress ''tok''])"
  by (simp add: get_courses_def sample_world_def sample_courses_def lesson_entry_def Let_def)



lemma all_lessons_nonempty:
  assumes "courses \<noteq> []" "\<forall>e \<in> snd ` set courses. lessons e \<noteq> []"
  shows "all_lessons courses \<noteq> []"
proof -
  obtain k e rest where "courses = (k, e) # rest"
    using assms(1) by (cases courses) auto
  then show ?thesis using assms(2) by (simp add: all_lessons_def)
qed

text \<open>
  Claim C8: whenever discovery returns a dictionary, the lesson count that
  \<^verbatim>\<open>_calculate_hours\<close> divides by is at least 1, so the division does not raise.
\<close>

theorem lesson_count_positive:
  assumes "fst (get_courses w token threshold posted) = Inr courses"
  shows "1 \<le> count_lessons courses 0 \<and>
         calculate_hours hours_todo courses = Inr (hours_todo / real (count_lessons courses 0))"
proof -
  have "\<forall>e \<in> snd ` set courses. lessons e \<noteq> []"
    unfolding get_courses_Inr(1) [OF assms]
    by (rule collect_courses_nonempty) simp
  then have "all_lessons courses \<noteq> []"
    using get_courses_Inr(2) [OF assms] by (rule all_lessons_nonempty [rotated])
  then have "1 \<le> count_lessons courses 0"
    by (simp add: count_lessons_length Suc_le_eq)
  then show ?thesis by (simp add: calculate_hours_def Let_def)
qed

theorem lesson_count_positive_witness:
  "fst (get_courses sample_world ''tok'' 0.2 []) = Inr sample_courses \<and>
   count_lessons sample_courses 0 = 2 \<and>
   calculate_hours 20 sample_courses = Inr 10"
proof -
  have g: "fst (get_courses sample_world ''tok'' 0.2 []) = Inr sample_courses"
    by (simp only: sample_discovery fst_conv)
  have n: "count_lessons sample_courses 0 = 2"
    by (simp add: sample_courses_def)
  show ?thesis
    using g n lesson_count_positive [OF g, of 20] by simp
qed

text \<open>
  Claim C9: when authentication and the course query succeed and no lesson of any assigned
  course is at or below the threshold, the run ends with \<^verbatim>\<open>exit(0)\<close> after the token
  request and the course query, without any submission.
\<close>

theorem no_eligible_lessons:
  assumes "status_code (auth_reply w) = 200" "status_code (courses_reply w) = 200"
    and "\<forall>c \<in> set (assignedCourses (body (courses_reply w))). \<forall>l \<in> set (sequences c).
           threshold < get_lesson_progress (progress (body (courses_reply w))) (courseId c)
                         (sequence_id l)"
  shows "RosettaStone w hours_todo threshold =
           (Inl (SystemExit 0),
            [TokenRequest (input_id w) (input_pass w),
             GetCoursesAndProgress (access_token (body (auth_reply w)))]) \<and>
         progress_payloads (snd (RosettaStone w hours_todo threshold)) = []"
proof -
  let ?pr = "progress (body (courses_reply w))"
  have "\<forall>c \<in> set (assignedCourses (body (courses_reply w))).
          collect_lessons (slugify w) threshold ?pr (courseId c) (sequences c) [] = []"
    using assms(3) by (fastforce simp: collect_lessons_eq filter_empty_conv not_le)
  then have "collect_courses (slugify w) threshold ?pr (assignedCourses (body (courses_reply w))) [] = []"
    by (rule collect_courses_none)
  then have run: "RosettaStone w hours_todo threshold =
           (Inl (SystemExit 0),
            [TokenRequest (input_id w) (input_pass w),
             GetCoursesAndProgress (access_token (body (auth_reply w)))])"
    using assms(1,2)
    by (simp add: RosettaStone_def start_machine_def authenticate_def get_courses_def Let_def)
  then show ?thesis by simp
qed

theorem no_eligible_lessons_witness:
  "main finished_world =
     (Inl (SystemExit 0),
      [TokenRequest ''student@example.org'' ''secret'', GetCoursesAndProgress ''tok''])"
  using no_eligible_lessons [of finished_world "0.2" 20]
  by (simp add: main_def finished_world_def sample_world_def)

section \<open>The time budget\<close>



section \<open>The requests of a run\<close>

text \<open>Requests are only ever appended: each operation extends the list it starts from.\<close>

lemma complete_step_prefix:
  "prefix (sent s) (sent (snd (complete_step w token uid cid lsn aid st hours s)))"
proof (cases "format_answers st")
  case (Inl e)
  then show ?thesis by (simp add: complete_step_def)
next
  case (Inr r)
  show ?thesis
  proof (cases r)
    case None
    then show ?thesis using Inr by (simp add: complete_step_def)
  next
    case (Some fa)
    then have fa: "format_answers st = Inr (Some fa)" using Inr by simp
    show ?thesis
    proof (cases "fragmented fa")
      case False
      then show ?thesis by (simp add: complete_step_single [OF fa])
    next
      case True
      show ?thesis
      proof (cases "answers fa = []")
        case True
        then show ?thesis
          using complete_step_fragmented_empty [OF fa \<open>fragmented fa\<close>] by simp
      next
        case False
        show ?thesis
          unfolding complete_step_fragmented [OF fa True False]
          using submit_fragments_sent by (metis prefixI snd_conv)
      qed
    qed
  qed
qed

lemma complete_steps_prefix:
  "prefix (sent s) (sent (snd (complete_steps w token uid cid lsn aid hpa sts s)))"
proof (induction sts arbitrary: s)
  case Nil
  show ?case by simp
next
  case (Cons st sts)
  let ?s0 = "s\<lparr>draws := draws s + 1\<rparr>"
  obtain r s1 where step:
    "complete_step w token uid cid lsn aid st (random_hours hpa (uniform w (draws s))) ?s0 = (r, s1)"
    by (cases "complete_step w token uid cid lsn aid st (random_hours hpa (uniform w (draws s))) ?s0")
  have p1: "prefix (sent s) (sent s1)"
    using complete_step_prefix [of ?s0 w token uid cid lsn aid st
            "random_hours hpa (uniform w (draws s))"] step by simp
  show ?case
  proof (cases r)
    case (Inl e)
    then show ?thesis using step p1 by (simp add: Let_def)
  next
    case (Inr b)
    then show ?thesis
      using step p1 Cons.IH [of s1] by (simp add: Let_def; metis prefix_order.trans)
  qed
qed

lemma complete_activities_prefix:
  "prefix (sent s) (sent (snd (complete_activities w token uid cid lsn hpa acts s)))"
proof (induction acts arbitrary: s)
  case Nil
  show ?case by simp
next
  case (Cons a acts)
  obtain r s1 where step:
    "complete_steps w token uid cid lsn (activityId a) hpa (steps a) s = (r, s1)"
    by (cases "complete_steps w token uid cid lsn (activityId a) hpa (steps a) s")
  have p1: "prefix (sent s) (sent s1)"
    using complete_steps_prefix [of s w token uid cid lsn "activityId a" hpa "steps a"] step by simp
  show ?case
  proof (cases r)
    case (Inl e)
    then show ?thesis using step p1 by simp
  next
    case (Inr u)
    then show ?thesis
      using step p1 Cons.IH [of s1] by (simp; metis prefix_order.trans)
  qed
qed

lemma complete_lesson_prefix:
  "prefix (sent s) (sent (snd (complete_lesson w token uid hpl cid lsn s)))"
proof -
  let ?s1 = "s\<lparr>sent := sent s @ [GetSequence token cid (slug lsn)]\<rparr>"
  have p1: "prefix (sent s) (sent ?s1)" by simp
  show ?thesis
  proof (cases "hours_per_activity hpl (sequence_reply w (length (sent s)))")
    case (Inl e)
    then show ?thesis by (simp add: complete_lesson_def Let_def)
  next
    case (Inr hpa)
    have "prefix (sent ?s1) (sent (snd (complete_activities w token uid cid lsn hpa
             (sequence_reply w (length (sent s))) ?s1)))"
      by (rule complete_activities_prefix)
    then show ?thesis
      using Inr p1 by (simp add: complete_lesson_def Let_def; metis append_prefixD)
  qed
qed

lemma complete_lessons_prefix:
  "prefix (sent s) (sent (snd (complete_lessons w token uid hpl cid lsns s)))"
proof (induction lsns arbitrary: s)
  case Nil
  show ?case by simp
next
  case (Cons lsn lsns)
  obtain r s1 where step: "complete_lesson w token uid hpl cid lsn s = (r, s1)"
    by (cases "complete_lesson w token uid hpl cid lsn s")
  have p1: "prefix (sent s) (sent s1)"
    using complete_lesson_prefix [of s w token uid hpl cid lsn] step by simp
  show ?case
  proof (cases r)
    case (Inl e)
    then show ?thesis using step p1 by simp
  next
    case (Inr u)
    then show ?thesis
      using step p1 Cons.IH [of s1] by (simp; metis prefix_order.trans)
  qed
qed

lemma complete_courses_prefix:
  "prefix (sent s) (sent (snd (complete_courses w token uid hpl courses s)))"
proof (induction courses arbitrary: s)
  case Nil
  show ?case by simp
next
  case (Cons ce courses)
  obtain cid infos where ce: "ce = (cid, infos)" by (cases ce)
  obtain r s1 where step: "complete_lessons w token uid hpl cid (lessons infos) s = (r, s1)"
    by (cases "complete_lessons w token uid hpl cid (lessons infos) s")
  have p1: "prefix (sent s) (sent s1)"
    using complete_lessons_prefix [of s w token uid hpl cid "lessons infos"] step by simp
  show ?case
  proof (cases r)
    case (Inl e)
    then show ?thesis using step p1 ce by simp
  next
    case (Inr u)
    then show ?thesis
      using step p1 ce Cons.IH [of s1] by (simp; metis prefix_order.trans)
  qed
qed

lemma start_machine_token_request:
  "\<exists>rest. snd (start_machine w hours threshold) = TokenRequest (input_id w) (input_pass w) # rest"
proof (cases "status_code (auth_reply w) = 200")
  case False
  then show ?thesis by (simp add: start_machine_def authenticate_def Let_def)
next
  case auth: True
  let ?tok = "access_token (body (auth_reply w))"
  let ?uid = "userId (body (auth_reply w))"
  let ?posted = "[TokenRequest (input_id w) (input_pass w), GetCoursesAndProgress ?tok]"
  have "snd (get_courses w ?tok threshold [TokenRequest (input_id w) (input_pass w)]) = ?posted"
    by (simp add: get_courses_def Let_def)
  then obtain r where g:
    "get_courses w ?tok threshold [TokenRequest (input_id w) (input_pass w)] = (r, ?posted)"
    by (cases "get_courses w ?tok threshold [TokenRequest (input_id w) (input_pass w)]") simp
  show ?thesis
  proof (cases r)
    case (Inl e)
    then show ?thesis using auth g by (simp add: start_machine_def authenticate_def Let_def)
  next
    case (Inr courses)
    show ?thesis
    proof (cases "calculate_hours hours courses")
      case (Inl e)
      then show ?thesis
        using auth g Inr by (simp add: start_machine_def authenticate_def Let_def)
    next
      case hpl: (Inr hpl)
      let ?s0 = "\<lparr>version = 1, sent = ?posted, uuids = 0, draws = 0\<rparr>"
      obtain r2 s2 where cc: "complete_courses w ?tok ?uid hpl courses ?s0 = (r2, s2)"
        by (cases "complete_courses w ?tok ?uid hpl courses ?s0")
      have "prefix (sent ?s0) (sent (snd (complete_courses w ?tok ?uid hpl courses ?s0)))"
        by (rule complete_courses_prefix)
      then obtain ext where "sent s2 = ?posted @ ext"
        unfolding cc by (auto simp: prefix_def)
      then show ?thesis
        using auth g Inr hpl cc
        by (simp add: start_machine_def authenticate_def Let_def)
    qed
  qed
qed

text \<open>
  The run in the sample world, with the default 20 hours: two eligible lessons of one
  activity each. The first fragment of the first vocabulary step is rejected, and every
  later payload carries the other schema version.
\<close>

lemma sample_run:
  "fst (main sample_world) = Inr () \<and>
   map msg_version (progress_payloads (snd (main sample_world))) = [1, 0, 0, 0, 0, 0] \<and>
   map durationMs (progress_payloads (snd (main sample_world))) =
     [18000000, 18000000, 36000000, 18000000, 18000000, 36000000]"
  by (simp add: main_def RosettaStone_def read_hours_todo_def start_machine_def authenticate_def
        get_courses_def lesson_entry_def calculate_hours_def complete_lesson_def
        hours_per_activity_def run_defs)

text \<open>
  Claim C10: when the operator's hours cannot be parsed the run goes on with the default of
  20 hours, and a parsed value is used as it is; in both cases the run continues with the
  token request.
\<close>

theorem hours_input_fallback:
  "(input_hours w = None \<longrightarrow> main w = start_machine w 20 0.2) \<and>
   (\<forall>h. input_hours w = Some h \<longrightarrow> main w = start_machine w h 0.2) \<and>
   (\<exists>rest. snd (main w) = TokenRequest (input_id w) (input_pass w) # rest)"
  using start_machine_token_request [of w "read_hours_todo w 20" "0.2"]
  by (simp add: main_def RosettaStone_def read_hours_todo_def)

theorem hours_input_fallback_witness:
  "input_hours sample_world = None \<and>
   main sample_world = start_machine sample_world 20 0.2 \<and>
   input_hours (sample_world\<lparr>input_hours := Some 7.5\<rparr>) = Some 7.5 \<and>
   main (sample_world\<lparr>input_hours := Some 7.5\<rparr>) =
     start_machine (sample_world\<lparr>input_hours := Some 7.5\<rparr>) 7.5 0.2"
  using hours_input_fallback [of sample_world]
        hours_input_fallback [of "sample_world\<lparr>input_hours := Some 7.5\<rparr>"]
  by (simp add: sample_world_def)

end
